theory Spec2Isabelle
  imports Complex_Main
begin

section \<open>NetZero TestOps: the carbon impact calculator\<close>

text \<open>
  A shallow embedding of the class \<open>CarbonImpactCalculator\<close> of
  \<^verbatim>\<open>src/Demo/impact_calculator.py\<close>.

  Numbers. The source computes with Python floats. They are modelled as the
  real numbers they approximate: every arithmetic expression is kept in the shape and
  order in which the source writes it, rounding is not modelled, and the special values
  (infinities, NaN) do not occur. The decimal constants of the source (\<open>0.372\<close>,
  \<open>1.12\<close>, \<open>4.6\<close>, ...) are the exact decimal fractions.

  Errors. A raised exception is a value \<open>Inl e\<close>, a returned value is \<open>Inr v\<close>.
  The only exception the modelled code raises is Python's built-in
  \<open>ZeroDivisionError\<close> (a float or int division \<open>a / b\<close> with \<open>b == 0\<close>).
  \<open>InvalidInput\<close> and \<open>EmptyInput\<close> are the two other error kinds that the
  specification names; no statement of the source raises them.

  Time. \<open>datetime.now().isoformat()\<close> reads the wall clock. The reading is an explicit
  argument: a comparison takes the string that the clock returns during the call, a report
  takes the sequence of readings of the calls it makes.
\<close>

subsection \<open>Errors and division\<close>

datatype py_error = ZeroDivisionError | InvalidInput | EmptyInput

definition truediv :: "real \<Rightarrow> real \<Rightarrow> py_error + real" where
  "truediv a b = (if b = 0 then Inl ZeroDivisionError else Inr (a / b))"

definition bind_result :: "py_error + 'a \<Rightarrow> ('a \<Rightarrow> py_error + 'b) \<Rightarrow> py_error + 'b" where
  "bind_result m f = (case m of Inl e \<Rightarrow> Inl e | Inr v \<Rightarrow> f v)"

subsection \<open>The calculator object\<close>

record calculator =
  GRID_INTENSITY :: real
  CPU_BASE_WATTS :: real
  MEMORY_WATTS_PER_GB :: real
  STORAGE_WATTS_PER_GB :: real
  NETWORK_WATTS_PER_MB :: real
  CLOUD_PUE :: real
  ENERGY_COST_PER_KWH :: real
  CARBON_CREDIT_COST_PER_TON :: real

text \<open>\<open>__init__\<close>: the attribute values every instance starts with.\<close>

definition init_calculator :: calculator where
  "init_calculator =
     \<lparr> GRID_INTENSITY = 400,
       CPU_BASE_WATTS = 30,
       MEMORY_WATTS_PER_GB = 0.372,
       STORAGE_WATTS_PER_GB = 0.65,
       NETWORK_WATTS_PER_MB = 0.0036,
       CLOUD_PUE = 1.12,
       ENERGY_COST_PER_KWH = 0.12,
       CARBON_CREDIT_COST_PER_TON = 25 \<rparr>"

subsection \<open>\<open>calculate_base_consumption\<close>\<close>

record energy_breakdown =
  cpu_wh :: real
  memory_wh :: real
  storage_wh :: real
  network_wh :: real
  pue_overhead_wh :: real

record energy_result =
  total_wh :: real
  total_joules :: real
  total_kwh :: real
  breakdown :: energy_breakdown

record carbon_result =
  total_g_co2e :: real
  total_kg_co2e :: real
  grid_intensity_used :: real

text \<open>The dictionary \<open>input_parameters\<close> echoes the five arguments.\<close>

record input_parameters =
  param_duration_seconds :: real
  param_cpu_utilization :: real
  param_memory_gb :: real
  param_storage_gb :: real
  param_network_mb :: real

record consumption =
  energy :: energy_result
  carbon :: carbon_result
  input_parameters :: input_parameters

text \<open>
  The body has no \<open>raise\<close> and divides only by the literals \<open>3600\<close> and \<open>1000\<close>, so
  every call returns: the outcome is always \<open>Inr\<close>. The arguments are the five
  parameters after the defaults of \<open>storage_gb\<close> and \<open>network_mb\<close> have been filled in.
\<close>

definition calculate_base_consumption ::
  "calculator \<Rightarrow> real \<Rightarrow> real \<Rightarrow> real \<Rightarrow> real \<Rightarrow> real \<Rightarrow> py_error + consumption" where
  "calculate_base_consumption self duration_seconds cpu_utilization memory_gb storage_gb network_mb =
     (let duration_hours = duration_seconds / 3600;
          cpu_energy = CPU_BASE_WATTS self * cpu_utilization * duration_hours;
          memory_energy = MEMORY_WATTS_PER_GB self * memory_gb * duration_hours;
          storage_energy = STORAGE_WATTS_PER_GB self * storage_gb * duration_hours;
          network_energy = NETWORK_WATTS_PER_MB self * network_mb * duration_hours;
          total_energy_wh = cpu_energy + memory_energy + storage_energy + network_energy;
          total_energy_with_pue_wh = total_energy_wh * CLOUD_PUE self;
          total_energy_joules = total_energy_with_pue_wh * 3600;
          total_energy_kwh = total_energy_with_pue_wh / 1000;
          carbon_g_co2e = total_energy_kwh * GRID_INTENSITY self;
          carbon_kg_co2e = carbon_g_co2e / 1000
      in Inr \<lparr> energy =
                 \<lparr> total_wh = total_energy_with_pue_wh,
                   total_joules = total_energy_joules,
                   total_kwh = total_energy_kwh,
                   breakdown =
                     \<lparr> cpu_wh = cpu_energy,
                       memory_wh = memory_energy,
                       storage_wh = storage_energy,
                       network_wh = network_energy,
                       pue_overhead_wh = total_energy_with_pue_wh - total_energy_wh \<rparr> \<rparr>,
               carbon =
                 \<lparr> total_g_co2e = carbon_g_co2e,
                   total_kg_co2e = carbon_kg_co2e,
                   grid_intensity_used = GRID_INTENSITY self \<rparr>,
               input_parameters =
                 \<lparr> param_duration_seconds = duration_seconds,
                   param_cpu_utilization = cpu_utilization,
                   param_memory_gb = memory_gb,
                   param_storage_gb = storage_gb,
                   param_network_mb = network_mb \<rparr> \<rparr>)"

subsection \<open>\<open>calculate_framework_comparison\<close>\<close>

text \<open>
  A metrics dictionary is unpacked into the keyword arguments of
  \<open>calculate_base_consumption\<close>: \<open>storage_gb\<close> and \<open>network_mb\<close> may be absent,
  and then take the default \<open>0\<close>.
\<close>

record metrics =
  duration_seconds :: real
  cpu_utilization :: real
  memory_gb :: real
  storage_gb :: "real option"
  network_mb :: "real option"

definition or_default :: "real option \<Rightarrow> real" where
  "or_default v = (case v of None \<Rightarrow> 0 | Some x \<Rightarrow> x)"

text \<open>
  The two absolute savings are the entries that \<open>calculate_annual_projections\<close> reads;
  the full \<open>comparison_summary\<close> dictionary extends them with the three percentages.
\<close>

record savings =
  energy_saved_joules :: real
  carbon_saved_g_co2e :: real

record summary = savings +
  energy_reduction_percent :: real
  carbon_reduction_percent :: real
  performance_improvement_percent :: real

record efficiency =
  cpu_efficiency_improvement :: real
  memory_efficiency_improvement :: real

text \<open>
  \<open>scenario_name\<close> is the key that \<open>generate_carbon_report\<close> adds to a comparison
  afterwards; it is absent (\<open>None\<close>) in what \<open>calculate_framework_comparison\<close> returns.
\<close>

record comparison =
  timestamp :: string
  comparison_summary :: summary
  sustainable_framework :: consumption
  wasteful_framework :: consumption
  efficiency_analysis :: efficiency
  scenario_name :: "string option"

text \<open>
  \<open>now\<close> is the value of \<open>datetime.now().isoformat()\<close> in this call. The divisions
  are evaluated in the order of the source: the three percentages first, then, while the
  returned dictionary is built, the two efficiency improvements.
\<close>

definition calculate_framework_comparison ::
  "calculator \<Rightarrow> string \<Rightarrow> metrics \<Rightarrow> metrics \<Rightarrow> py_error + comparison" where
  "calculate_framework_comparison self now sustainable wasteful =
     bind_result (calculate_base_consumption self (duration_seconds sustainable)
         (cpu_utilization sustainable) (memory_gb sustainable)
         (or_default (storage_gb sustainable)) (or_default (network_mb sustainable)))
       (\<lambda>sustainable_result.
     bind_result (calculate_base_consumption self (duration_seconds wasteful)
         (cpu_utilization wasteful) (memory_gb wasteful)
         (or_default (storage_gb wasteful)) (or_default (network_mb wasteful)))
       (\<lambda>wasteful_result.
     bind_result (truediv (total_joules (energy wasteful_result) -
                           total_joules (energy sustainable_result))
                          (total_joules (energy wasteful_result)))
       (\<lambda>energy_ratio.
     bind_result (truediv (total_g_co2e (carbon wasteful_result) -
                           total_g_co2e (carbon sustainable_result))
                          (total_g_co2e (carbon wasteful_result)))
       (\<lambda>carbon_ratio.
     bind_result (truediv (duration_seconds wasteful - duration_seconds sustainable)
                          (duration_seconds wasteful))
       (\<lambda>performance_ratio.
     let energy_reduction = energy_ratio * 100;
         carbon_reduction = carbon_ratio * 100;
         performance_improvement = performance_ratio * 100;
         energy_saved = total_joules (energy wasteful_result) -
                        total_joules (energy sustainable_result);
         carbon_saved = total_g_co2e (carbon wasteful_result) -
                        total_g_co2e (carbon sustainable_result)
     in
     bind_result (truediv (cpu_utilization wasteful - cpu_utilization sustainable)
                          (cpu_utilization wasteful))
       (\<lambda>cpu_ratio.
     bind_result (truediv (memory_gb wasteful - memory_gb sustainable)
                          (memory_gb wasteful))
       (\<lambda>memory_ratio.
     Inr \<lparr> timestamp = now,
           comparison_summary =
             \<lparr> energy_saved_joules = energy_saved,
               carbon_saved_g_co2e = carbon_saved,
               energy_reduction_percent = energy_reduction,
               carbon_reduction_percent = carbon_reduction,
               performance_improvement_percent = performance_improvement \<rparr>,
           sustainable_framework = sustainable_result,
           wasteful_framework = wasteful_result,
           efficiency_analysis =
             \<lparr> cpu_efficiency_improvement = cpu_ratio * 100,
               memory_efficiency_improvement = memory_ratio * 100 \<rparr>,
           scenario_name = None \<rparr>)))))))"

subsection \<open>\<open>calculate_annual_projections\<close>\<close>

record projection_parameters =
  daily_tests :: int
  projection_days :: int
  energy_cost_per_kwh :: real
  carbon_credit_cost_per_ton :: real

record annual_environmental_impact =
  energy_saved_kwh :: real
  carbon_saved_kg :: real
  carbon_saved_tons :: real
  equivalent_cars_removed :: real
  equivalent_trees_planted :: real

record annual_cost_savings =
  energy_cost_savings :: real
  carbon_credit_savings :: real
  total_savings :: real

text \<open>The dictionary \<open>daily_impact\<close>; its two keys repeat names of the annual one.\<close>

record daily_impact =
  daily_energy_saved_kwh :: real
  daily_carbon_saved_kg :: real

record projections =
  projection_parameters :: projection_parameters
  annual_environmental_impact :: annual_environmental_impact
  annual_cost_savings :: annual_cost_savings
  daily_impact :: daily_impact

text \<open>
  The second argument is \<open>comparison_result['comparison_summary']\<close>, of which the
  function reads the two savings only; any dictionary that has them is accepted. As in
  \<open>calculate_base_consumption\<close>, all divisors are literals and the outcome is \<open>Inr\<close>.
\<close>

definition calculate_annual_projections ::
  "calculator \<Rightarrow> int \<Rightarrow> 'a savings_scheme \<Rightarrow> py_error + projections" where
  "calculate_annual_projections self tests comparison_result =
     (let daily_energy = (energy_saved_joules comparison_result * of_int tests) / 3600000;
          daily_carbon = (carbon_saved_g_co2e comparison_result * of_int tests) / 1000;
          annual_energy_saved_kwh = daily_energy * 365;
          annual_carbon_saved_kg = daily_carbon * 365;
          annual_carbon_saved_tons = annual_carbon_saved_kg / 1000;
          annual_energy_cost_savings = annual_energy_saved_kwh * ENERGY_COST_PER_KWH self;
          annual_carbon_credit_savings =
            annual_carbon_saved_tons * CARBON_CREDIT_COST_PER_TON self;
          total_annual_savings = annual_energy_cost_savings + annual_carbon_credit_savings
      in Inr \<lparr> projection_parameters =
                 \<lparr> daily_tests = tests,
                   projection_days = 365,
                   energy_cost_per_kwh = ENERGY_COST_PER_KWH self,
                   carbon_credit_cost_per_ton = CARBON_CREDIT_COST_PER_TON self \<rparr>,
               annual_environmental_impact =
                 \<lparr> energy_saved_kwh = annual_energy_saved_kwh,
                   carbon_saved_kg = annual_carbon_saved_kg,
                   carbon_saved_tons = annual_carbon_saved_tons,
                   equivalent_cars_removed = annual_carbon_saved_tons / 4.6,
                   equivalent_trees_planted = annual_carbon_saved_kg / 22 \<rparr>,
               annual_cost_savings =
                 \<lparr> energy_cost_savings = annual_energy_cost_savings,
                   carbon_credit_savings = annual_carbon_credit_savings,
                   total_savings = total_annual_savings \<rparr>,
               daily_impact =
                 \<lparr> daily_energy_saved_kwh = daily_energy,
                   daily_carbon_saved_kg = daily_carbon \<rparr> \<rparr>)"

subsection \<open>\<open>generate_carbon_report\<close>\<close>

record scenario =
  name :: string
  sustainable_metrics :: metrics
  wasteful_metrics :: metrics

record report_metadata =
  generated_timestamp :: string
  scenarios_analyzed :: nat
  calculator_version :: string

record executive_summary =
  average_carbon_reduction_percent :: real
  average_energy_reduction_percent :: real
  total_energy_saved_joules :: real
  total_carbon_saved_g_co2e :: real

record methodology =
  grid_intensity_g_co2_kwh :: real
  cpu_base_watts :: real
  memory_watts_per_gb :: real
  cloud_pue_factor :: real
  standards_compliance :: "string list"

record report =
  report_metadata :: report_metadata
  executive_summary :: executive_summary
  detailed_scenarios :: "comparison list"
  annual_projections :: projections
  methodology :: methodology

text \<open>Python's \<open>sum\<close>: start from \<open>0\<close> and add the items from left to right.\<close>

definition py_sum :: "real list \<Rightarrow> real" where
  "py_sum xs = foldl (+) 0 xs"

text \<open>
  The \<open>for\<close> loop over the scenarios. \<open>clock k\<close> is the \<open>k\<close>-th reading of the wall
  clock since the call of \<open>generate_carbon_report\<close> began; each comparison takes one
  reading. An exception in a comparison leaves the loop and the function.
\<close>

fun compare_scenarios ::
  "calculator \<Rightarrow> (nat \<Rightarrow> string) \<Rightarrow> nat \<Rightarrow> comparison list \<Rightarrow> scenario list
     \<Rightarrow> py_error + comparison list" where
  "compare_scenarios self clock k total_comparisons [] = Inr total_comparisons"
| "compare_scenarios self clock k total_comparisons (scenario # rest) =
     bind_result (calculate_framework_comparison self (clock k)
                    (sustainable_metrics scenario) (wasteful_metrics scenario))
       (\<lambda>comparison.
          compare_scenarios self clock (Suc k)
            (total_comparisons @ [comparison\<lparr>scenario_name := Some (name scenario)\<rparr>]) rest)"

definition generate_carbon_report ::
  "calculator \<Rightarrow> (nat \<Rightarrow> string) \<Rightarrow> scenario list \<Rightarrow> py_error + report" where
  "generate_carbon_report self clock test_scenarios =
     bind_result (compare_scenarios self clock 0 [] test_scenarios)
       (\<lambda>total_comparisons.
     let total_energy_saved =
           py_sum (map (\<lambda>c. energy_saved_joules (comparison_summary c)) total_comparisons);
         total_carbon_saved =
           py_sum (map (\<lambda>c. carbon_saved_g_co2e (comparison_summary c)) total_comparisons)
     in
     bind_result (truediv
         (py_sum (map (\<lambda>c. carbon_reduction_percent (comparison_summary c)) total_comparisons))
         (real (length total_comparisons)))
       (\<lambda>avg_carbon_reduction.
     bind_result (truediv
         (py_sum (map (\<lambda>c. energy_reduction_percent (comparison_summary c)) total_comparisons))
         (real (length total_comparisons)))
       (\<lambda>avg_energy_reduction.
     bind_result (truediv total_energy_saved (real (length test_scenarios)))
       (\<lambda>mean_energy_saved.
     bind_result (truediv total_carbon_saved (real (length test_scenarios)))
       (\<lambda>mean_carbon_saved.
     let mock_comparison =
           \<lparr> energy_saved_joules = mean_energy_saved,
             carbon_saved_g_co2e = mean_carbon_saved \<rparr>
     in
     bind_result (calculate_annual_projections self 100 mock_comparison)
       (\<lambda>projected.
     Inr \<lparr> report_metadata =
             \<lparr> generated_timestamp = clock (length test_scenarios),
               scenarios_analyzed = length test_scenarios,
               calculator_version = ''1.0.0'' \<rparr>,
           executive_summary =
             \<lparr> average_carbon_reduction_percent = avg_carbon_reduction,
               average_energy_reduction_percent = avg_energy_reduction,
               total_energy_saved_joules = total_energy_saved,
               total_carbon_saved_g_co2e = total_carbon_saved \<rparr>,
           detailed_scenarios = total_comparisons,
           annual_projections = projected,
           methodology =
             \<lparr> grid_intensity_g_co2_kwh = GRID_INTENSITY self,
               cpu_base_watts = CPU_BASE_WATTS self,
               memory_watts_per_gb = MEMORY_WATTS_PER_GB self,
               cloud_pue_factor = CLOUD_PUE self,
               standards_compliance =
                 [''Software Carbon Intensity (SCI) Specification'',
                  ''GHG Protocol Scope 2 Guidance'',
                  ''Green Software Foundation Standards''] \<rparr> \<rparr>))))))"

subsection \<open>Concrete inputs\<close>

text \<open>The three entries of \<open>test_scenarios\<close> in \<open>main\<close>.\<close>

definition login_scenario :: scenario where
  "login_scenario =
     \<lparr> name = ''E-commerce Login Test'',
       sustainable_metrics =
         \<lparr> duration_seconds = 2.1, cpu_utilization = 0.20, memory_gb = 0.8,
           storage_gb = Some 0.1, network_mb = Some 2.5 \<rparr>,
       wasteful_metrics =
         \<lparr> duration_seconds = 6.8, cpu_utilization = 0.75, memory_gb = 3.2,
           storage_gb = Some 0.5, network_mb = Some 8.1 \<rparr> \<rparr>"

definition search_scenario :: scenario where
  "search_scenario =
     \<lparr> name = ''Product Search Test'',
       sustainable_metrics =
         \<lparr> duration_seconds = 1.8, cpu_utilization = 0.18, memory_gb = 0.9,
           storage_gb = Some 0.2, network_mb = Some 3.1 \<rparr>,
       wasteful_metrics =
         \<lparr> duration_seconds = 5.9, cpu_utilization = 0.68, memory_gb = 2.8,
           storage_gb = Some 0.7, network_mb = Some 9.4 \<rparr> \<rparr>"

definition checkout_scenario :: scenario where
  "checkout_scenario =
     \<lparr> name = ''Checkout Process Test'',
       sustainable_metrics =
         \<lparr> duration_seconds = 3.2, cpu_utilization = 0.25, memory_gb = 1.1,
           storage_gb = Some 0.3, network_mb = Some 4.2 \<rparr>,
       wasteful_metrics =
         \<lparr> duration_seconds = 8.7, cpu_utilization = 0.82, memory_gb = 3.8,
           storage_gb = Some 0.9, network_mb = Some 12.6 \<rparr> \<rparr>"

definition main_test_scenarios :: "scenario list" where
  "main_test_scenarios = [login_scenario, search_scenario, checkout_scenario]"

text \<open>
  Two variants of the wasteful login sample, for the zero denominators: one that lasted
  no time at all, and one whose CPU stayed idle.
\<close>

definition zero_duration_metrics :: metrics where
  "zero_duration_metrics = (wasteful_metrics login_scenario)\<lparr>duration_seconds := 0\<rparr>"

definition idle_cpu_metrics :: metrics where
  "idle_cpu_metrics = (wasteful_metrics login_scenario)\<lparr>cpu_utilization := 0\<rparr>"

text \<open>The login scenario with the zero-duration baseline in place of its wasteful sample.\<close>

definition zero_duration_scenario :: scenario where
  "zero_duration_scenario =
     \<lparr> name = ''Zero Duration Baseline'',
       sustainable_metrics = sustainable_metrics login_scenario,
       wasteful_metrics = zero_duration_metrics \<rparr>"

text \<open>
  A clock for concrete evaluations: the wall clock of a run that starts at midnight and
  in which every reading falls into the same second.
\<close>

definition still_clock :: "nat \<Rightarrow> string" where
  "still_clock k = ''2025-01-01T00:00:00''"

text \<open>The same run one second later.\<close>

definition later_clock :: "nat \<Rightarrow> string" where
  "later_clock k = ''2025-01-01T00:00:01''"

subsection \<open>Outputs up to the clock readings\<close>

text \<open>
  A comparison with its \<open>timestamp\<close> blanked, and a report with its
  \<open>generated_timestamp\<close> and the timestamps of its comparisons blanked.
\<close>

definition without_timestamp :: "comparison \<Rightarrow> comparison" where
  "without_timestamp c = c\<lparr>timestamp := []\<rparr>"

definition without_timestamps :: "report \<Rightarrow> report" where
  "without_timestamps r =
     r\<lparr> report_metadata := (report_metadata r)\<lparr>generated_timestamp := []\<rparr>,
        detailed_scenarios := map without_timestamp (detailed_scenarios r) \<rparr>"

section \<open>Properties\<close>

subsection \<open>Auxiliary facts\<close>

lemma bind_result_Inl [simp]: "bind_result (Inl e) f = Inl e"
  by (simp add: bind_result_def)

lemma bind_result_Inr [simp]: "bind_result (Inr v) f = f v"
  by (simp add: bind_result_def)

lemma base_consumption_returns:
  "\<exists>r. calculate_base_consumption self d c m s n = Inr r"
  by (simp add: calculate_base_consumption_def Let_def)

lemma py_sum_foldl: "foldl (+) a xs = a + sum_list xs" for a :: real
  by (induction xs arbitrary: a) simp_all

lemma py_sum_sum_list: "py_sum xs = sum_list xs"
  by (simp add: py_sum_def py_sum_foldl)

lemma comparison_clock:
  "map_sum id without_timestamp (calculate_framework_comparison self now s w) =
     calculate_framework_comparison self [] s w"
proof -
  obtain rs where s: "calculate_base_consumption self (duration_seconds s) (cpu_utilization s)
      (memory_gb s) (or_default (storage_gb s)) (or_default (network_mb s)) = Inr rs"
    using base_consumption_returns by blast
  obtain rw where w: "calculate_base_consumption self (duration_seconds w) (cpu_utilization w)
      (memory_gb w) (or_default (storage_gb w)) (or_default (network_mb w)) = Inr rw"
    using base_consumption_returns by blast
  show ?thesis
    unfolding calculate_framework_comparison_def s w bind_result_Inr
    by (simp add: truediv_def without_timestamp_def Let_def)
qed

lemma comparison_scenario_name:
  "calculate_framework_comparison self now s w = Inr c \<Longrightarrow> scenario_name c = None"
proof -
  obtain rs where s: "calculate_base_consumption self (duration_seconds s) (cpu_utilization s)
      (memory_gb s) (or_default (storage_gb s)) (or_default (network_mb s)) = Inr rs"
    using base_consumption_returns by blast
  obtain rw where w: "calculate_base_consumption self (duration_seconds w) (cpu_utilization w)
      (memory_gb w) (or_default (storage_gb w)) (or_default (network_mb w)) = Inr rw"
    using base_consumption_returns by blast
  show "calculate_framework_comparison self now s w = Inr c \<Longrightarrow> scenario_name c = None"
    unfolding calculate_framework_comparison_def s w bind_result_Inr
    by (auto simp: truediv_def Let_def split: if_splits)
qed

lemma compare_scenarios_clock:
  "map_sum id (map without_timestamp) (compare_scenarios self clock k acc scs) =
     compare_scenarios self (\<lambda>i. []) k (map without_timestamp acc) scs"
proof (induction scs arbitrary: k acc)
  case Nil
  show ?case by simp
next
  case (Cons sc rest)
  show ?case
  proof (cases "calculate_framework_comparison self (clock k)
                  (sustainable_metrics sc) (wasteful_metrics sc)")
    case (Inl e)
    then have "calculate_framework_comparison self [] (sustainable_metrics sc)
                 (wasteful_metrics sc) = Inl e"
      using comparison_clock [of self "clock k" "sustainable_metrics sc" "wasteful_metrics sc"]
      by simp
    with Inl show ?thesis by simp
  next
    case (Inr c)
    then have "calculate_framework_comparison self [] (sustainable_metrics sc)
                 (wasteful_metrics sc) = Inr (without_timestamp c)"
      using comparison_clock [of self "clock k" "sustainable_metrics sc" "wasteful_metrics sc"]
      by simp
    moreover have "without_timestamp (c\<lparr>scenario_name := Some (name sc)\<rparr>) =
        (without_timestamp c)\<lparr>scenario_name := Some (name sc)\<rparr>"
      by (simp add: without_timestamp_def)
    ultimately show ?thesis
      using Inr Cons.IH [of "Suc k" "acc @ [c\<lparr>scenario_name := Some (name sc)\<rparr>]"]
      by simp
  qed
qed

lemma report_clock:
  "map_sum id without_timestamps (generate_carbon_report self clock scs) =
     generate_carbon_report self (\<lambda>i. []) scs"
proof (cases "compare_scenarios self clock 0 [] scs")
  case (Inl e)
  then have "compare_scenarios self (\<lambda>i. []) 0 [] scs = Inl e"
    using compare_scenarios_clock [of self clock 0 "[]" scs] by simp
  with Inl show ?thesis by (simp add: generate_carbon_report_def)
next
  case (Inr cs)
  then have blank: "compare_scenarios self (\<lambda>i. []) 0 [] scs = Inr (map without_timestamp cs)"
    using compare_scenarios_clock [of self clock 0 "[]" scs] by simp
  have summary: "comparison_summary (without_timestamp c) = comparison_summary c" for c
    by (simp add: without_timestamp_def)
  obtain p where p: "\<And>c :: savings. calculate_annual_projections self 100 c = Inr (p c)"
    by (simp add: calculate_annual_projections_def Let_def)
  show ?thesis
    unfolding generate_carbon_report_def Inr blank bind_result_Inr
    by (simp add: truediv_def Let_def comp_def summary p without_timestamps_def)
qed

lemma zero_duration_base:
  "calculate_base_consumption init_calculator (duration_seconds zero_duration_metrics)
     (cpu_utilization zero_duration_metrics) (memory_gb zero_duration_metrics)
     (or_default (storage_gb zero_duration_metrics)) (or_default (network_mb zero_duration_metrics))
   = Inr \<lparr> energy = \<lparr> total_wh = 0, total_joules = 0, total_kwh = 0,
               breakdown = \<lparr> cpu_wh = 0, memory_wh = 0, storage_wh = 0, network_wh = 0,
                 pue_overhead_wh = 0 \<rparr> \<rparr>,
             carbon = \<lparr> total_g_co2e = 0, total_kg_co2e = 0, grid_intensity_used = 400 \<rparr>,
             input_parameters = \<lparr> param_duration_seconds = 0, param_cpu_utilization = 0.75,
               param_memory_gb = 3.2, param_storage_gb = 0.5, param_network_mb = 8.1 \<rparr> \<rparr>"
  by (simp add: calculate_base_consumption_def init_calculator_def zero_duration_metrics_def
      login_scenario_def or_default_def Let_def)

lemma idle_cpu_base:
  "calculate_base_consumption init_calculator (duration_seconds idle_cpu_metrics)
     (cpu_utilization idle_cpu_metrics) (memory_gb idle_cpu_metrics)
     (or_default (storage_gb idle_cpu_metrics)) (or_default (network_mb idle_cpu_metrics))
   = Inr \<lparr> energy =
             \<lparr> total_wh = 2297533 / 703125000, total_joules = 4595066 / 390625,
               total_kwh = 2297533 / 703125000000,
               breakdown =
                 \<lparr> cpu_wh = 0, memory_wh = 527 / 234375, storage_wh = 221 / 360000,
                   network_wh = 1377 / 25000000, pue_overhead_wh = 328219 / 937500000 \<rparr> \<rparr>,
           carbon =
             \<lparr> total_g_co2e = 2297533 / 1757812500,
               total_kg_co2e = 2297533 / 1757812500000,
               grid_intensity_used = 400 \<rparr>,
           input_parameters =
             \<lparr> param_duration_seconds = 6.8, param_cpu_utilization = 0,
               param_memory_gb = 3.2, param_storage_gb = 0.5, param_network_mb = 8.1 \<rparr> \<rparr>"
  by (simp add: calculate_base_consumption_def init_calculator_def idle_cpu_metrics_def
      login_scenario_def or_default_def Let_def)

lemma comparison_returned_unnamed:
  "calculate_framework_comparison self now s w = Inr c \<Longrightarrow> c\<lparr>scenario_name := None\<rparr> = c"
  using comparison_scenario_name [of self now s w c] by simp

lemma compare_scenarios_succeeds:
  "\<forall>i<length scs. \<not> isl (calculate_framework_comparison self (clock (k + i))
       (sustainable_metrics (scs ! i)) (wasteful_metrics (scs ! i))) \<Longrightarrow>
   \<exists>cs. compare_scenarios self clock k acc scs = Inr (acc @ cs) \<and> length cs = length scs \<and>
     (\<forall>i<length scs.
        calculate_framework_comparison self (clock (k + i))
          (sustainable_metrics (scs ! i)) (wasteful_metrics (scs ! i)) =
          Inr ((cs ! i)\<lparr>scenario_name := None\<rparr>) \<and>
        scenario_name (cs ! i) = Some (name (scs ! i)))"
proof (induction scs arbitrary: k acc)
  case Nil
  show ?case by simp
next
  case (Cons sc rest)
  from Cons.prems [rule_format, of 0]
  obtain c where c: "calculate_framework_comparison self (clock k)
      (sustainable_metrics sc) (wasteful_metrics sc) = Inr c"
    by (cases "calculate_framework_comparison self (clock k)
      (sustainable_metrics sc) (wasteful_metrics sc)") auto
  let ?c = "c\<lparr>scenario_name := Some (name sc)\<rparr>"
  have "\<forall>i<length rest. \<not> isl (calculate_framework_comparison self (clock (Suc k + i))
       (sustainable_metrics (rest ! i)) (wasteful_metrics (rest ! i)))"
    using Cons.prems by (auto dest: spec [of _ "Suc i" for i])
  from Cons.IH [OF this, of "acc @ [?c]"]
  obtain cs where cs: "compare_scenarios self clock (Suc k) (acc @ [?c]) rest = Inr ((acc @ [?c]) @ cs)"
    "length cs = length rest"
    "\<forall>i<length rest.
        calculate_framework_comparison self (clock (Suc k + i))
          (sustainable_metrics (rest ! i)) (wasteful_metrics (rest ! i)) =
          Inr ((cs ! i)\<lparr>scenario_name := None\<rparr>) \<and>
        scenario_name (cs ! i) = Some (name (rest ! i))"
    by blast
  have head: "?c\<lparr>scenario_name := None\<rparr> = c"
    using comparison_returned_unnamed [OF c] by simp
  have "compare_scenarios self clock k acc (sc # rest) = Inr (acc @ ?c # cs)"
    using c cs(1) by simp
  moreover have "length (?c # cs) = length (sc # rest)"
    using cs(2) by simp
  moreover have "\<forall>i<length (sc # rest).
        calculate_framework_comparison self (clock (k + i))
          (sustainable_metrics ((sc # rest) ! i)) (wasteful_metrics ((sc # rest) ! i)) =
          Inr (((?c # cs) ! i)\<lparr>scenario_name := None\<rparr>) \<and>
        scenario_name ((?c # cs) ! i) = Some (name ((sc # rest) ! i))"
  proof (intro allI impI)
    fix i assume "i < length (sc # rest)"
    then show "calculate_framework_comparison self (clock (k + i))
          (sustainable_metrics ((sc # rest) ! i)) (wasteful_metrics ((sc # rest) ! i)) =
          Inr (((?c # cs) ! i)\<lparr>scenario_name := None\<rparr>) \<and>
        scenario_name ((?c # cs) ! i) = Some (name ((sc # rest) ! i))"
    proof (cases i)
      case 0
      with c head show ?thesis by simp
    next
      case (Suc j)
      with \<open>i < length (sc # rest)\<close> cs(3) show ?thesis by simp
    qed
  qed
  ultimately show ?case by blast
qed

lemma main_scenarios_compare:
  "\<not> isl (calculate_framework_comparison init_calculator now
       (sustainable_metrics login_scenario) (wasteful_metrics login_scenario))"
  "\<not> isl (calculate_framework_comparison init_calculator now
       (sustainable_metrics search_scenario) (wasteful_metrics search_scenario))"
  "\<not> isl (calculate_framework_comparison init_calculator now
       (sustainable_metrics checkout_scenario) (wasteful_metrics checkout_scenario))"
  by (simp_all add: calculate_framework_comparison_def calculate_base_consumption_def
      init_calculator_def login_scenario_def search_scenario_def checkout_scenario_def
      or_default_def truediv_def Let_def)

subsection \<open>The energy estimator\<close>

text \<open>
  Claim C1. For every utilization sample and every coefficient set,
  \<open>calculate_base_consumption\<close> returns a result in which each component energy is the
  coefficient times the quantity times \<open>duration_seconds / 3600\<close>, \<open>total_wh\<close> is the
  sum of the four components times the overhead factor \<open>CLOUD_PUE\<close>, \<open>total_joules\<close>
  is \<open>total_wh * 3600\<close> and \<open>total_kwh\<close> is \<open>total_wh / 1000\<close>.
\<close>

theorem base_consumption_formulas:
  "\<exists>r. calculate_base_consumption self d c m s n = Inr r \<and>
     cpu_wh (breakdown (energy r)) = CPU_BASE_WATTS self * c * (d / 3600) \<and>
     memory_wh (breakdown (energy r)) = MEMORY_WATTS_PER_GB self * m * (d / 3600) \<and>
     storage_wh (breakdown (energy r)) = STORAGE_WATTS_PER_GB self * s * (d / 3600) \<and>
     network_wh (breakdown (energy r)) = NETWORK_WATTS_PER_MB self * n * (d / 3600) \<and>
     total_wh (energy r) =
       (cpu_wh (breakdown (energy r)) + memory_wh (breakdown (energy r)) +
        storage_wh (breakdown (energy r)) + network_wh (breakdown (energy r))) * CLOUD_PUE self \<and>
     total_joules (energy r) = total_wh (energy r) * 3600 \<and>
     total_kwh (energy r) = total_wh (energy r) / 1000"
  by (simp add: calculate_base_consumption_def Let_def)

text \<open>
  Claim C2. In every estimated result the carbon mass in grams is \<open>total_kwh\<close> times
  the grid intensity, the mass in kilograms is a thousandth of it, and the grid intensity
  that was used is recorded beside them.
\<close>

theorem carbon_formulas:
  "\<exists>r. calculate_base_consumption self d c m s n = Inr r \<and>
     total_g_co2e (carbon r) = total_kwh (energy r) * GRID_INTENSITY self \<and>
     total_kg_co2e (carbon r) = total_g_co2e (carbon r) / 1000 \<and>
     grid_intensity_used (carbon r) = GRID_INTENSITY self"
  by (simp add: calculate_base_consumption_def Let_def)

text \<open>
  Claim C4 says that a negative duration or quantity, or a CPU utilization outside
  \<open>[0,1]\<close>, makes the estimator fail with \<open>InvalidInput\<close>. The source validates
  nothing. At a duration of \<open>-3600\<close> seconds, a utilization of \<open>1.5\<close> and negative
  memory, storage and network quantities it returns an ordinary result, with negative
  energy and carbon.
\<close>

theorem base_consumption_negative_input:
  "calculate_base_consumption init_calculator (- 3600) 1.5 (- 2) (- 3) (- 4) =
     Inr \<lparr> energy =
             \<lparr> total_wh = - (740103 / 15625),
               total_joules = - (106574832 / 625),
               total_kwh = - (740103 / 15625000),
               breakdown =
                 \<lparr> cpu_wh = - 45, memory_wh = 93 / 125, storage_wh = 39 / 20,
                   network_wh = 9 / 625, pue_overhead_wh = - (317187 / 62500) \<rparr> \<rparr>,
           carbon =
             \<lparr> total_g_co2e = - (1480206 / 78125),
               total_kg_co2e = - (740103 / 39062500),
               grid_intensity_used = 400 \<rparr>,
           input_parameters =
             \<lparr> param_duration_seconds = - 3600, param_cpu_utilization = 1.5,
               param_memory_gb = - 2, param_storage_gb = - 3, param_network_mb = - 4 \<rparr> \<rparr>"
  by (simp add: calculate_base_consumption_def init_calculator_def Let_def)

text \<open>
  Claim C4, amended. The estimator does not validate its input: for every input, also a
  negative duration or quantity and a CPU utilization outside \<open>[0,1]\<close>, it raises no
  error and returns a result.
\<close>

theorem base_consumption_never_fails:
  "calculate_base_consumption self d c m s n \<noteq> Inl e"
  by (simp add: calculate_base_consumption_def Let_def)

text \<open>
  Claim C9. On valid samples (no negative quantity, CPU utilization in \<open>[0,1]\<close>) and
  with coefficients that are not negative, as the default ones are, \<open>total_wh\<close> does
  not decrease when inputs grow: if every input of one valid sample is at most the
  corresponding input of another, the first \<open>total_wh\<close> is at most the second. With four
  of the five inputs equal in the two samples this is monotonicity in the fifth, the others
  held fixed.
\<close>

theorem total_wh_monotone:
  assumes coeff: "0 \<le> CPU_BASE_WATTS self" "0 \<le> MEMORY_WATTS_PER_GB self"
      "0 \<le> STORAGE_WATTS_PER_GB self" "0 \<le> NETWORK_WATTS_PER_MB self" "0 \<le> CLOUD_PUE self"
    and d: "0 \<le> d" "d \<le> d'"
    and c: "0 \<le> c" "c \<le> c'" "c' \<le> 1"
    and m: "0 \<le> m" "m \<le> m'"
    and s: "0 \<le> s" "s \<le> s'"
    and n: "0 \<le> n" "n \<le> n'"
  shows "\<exists>r r'. calculate_base_consumption self d c m s n = Inr r \<and>
                calculate_base_consumption self d' c' m' s' n' = Inr r' \<and>
                total_wh (energy r) \<le> total_wh (energy r')"
proof -
  have h: "d / 3600 \<le> d' / 3600" "0 \<le> d / 3600"
    using d by simp_all
  have summand: "k * x * (d / 3600) \<le> k * y * (d' / 3600)"
    if "0 \<le> k" "0 \<le> x" "x \<le> y" for k x y :: real
    using that h by (intro mult_mono mult_left_mono mult_nonneg_nonneg) auto
  have "CPU_BASE_WATTS self * c * (d / 3600) + MEMORY_WATTS_PER_GB self * m * (d / 3600) +
        STORAGE_WATTS_PER_GB self * s * (d / 3600) + NETWORK_WATTS_PER_MB self * n * (d / 3600)
      \<le> CPU_BASE_WATTS self * c' * (d' / 3600) + MEMORY_WATTS_PER_GB self * m' * (d' / 3600) +
        STORAGE_WATTS_PER_GB self * s' * (d' / 3600) + NETWORK_WATTS_PER_MB self * n' * (d' / 3600)"
    by (intro add_mono summand coeff c m s n)
  then show ?thesis
    using coeff(5) by (simp add: calculate_base_consumption_def Let_def mult_right_mono)
qed

text \<open>The sustainable and the wasteful login sample of \<open>main\<close>, default coefficients.\<close>

theorem total_wh_monotone_witness:
  "\<exists>r r'. calculate_base_consumption init_calculator 2.1 0.2 0.8 0.1 2.5 = Inr r \<and>
          calculate_base_consumption init_calculator 6.8 0.75 3.2 0.5 8.1 = Inr r' \<and>
          total_wh (energy r) \<le> total_wh (energy r')"
  using total_wh_monotone [of init_calculator "2.1" "6.8" "0.2" "0.75" "0.8" "3.2" "0.1" "0.5"
      "2.5" "8.1"]
  by (simp add: init_calculator_def)

subsection \<open>The projection engine\<close>

text \<open>
  Claim C7. For every comparison summary and every number of daily tests,
  \<open>calculate_annual_projections\<close> returns the daily energy saving
  \<open>energy_saved_joules * daily_tests / 3600000\<close> and the daily carbon saving
  \<open>carbon_saved_g_co2e * daily_tests / 1000\<close>, annual figures that are \<open>365\<close> times
  the daily ones, the annual tons as a thousandth of the annual kilograms, the two cost
  savings as products with the energy price and the carbon credit price, and the
  equivalences \<open>tons / 4.6\<close> cars and \<open>kilograms / 22\<close> trees.
\<close>

theorem projection_formulas:
  "\<exists>p. calculate_annual_projections self tests c = Inr p \<and>
     daily_energy_saved_kwh (daily_impact p) = energy_saved_joules c * of_int tests / 3600000 \<and>
     daily_carbon_saved_kg (daily_impact p) = carbon_saved_g_co2e c * of_int tests / 1000 \<and>
     energy_saved_kwh (annual_environmental_impact p) =
       daily_energy_saved_kwh (daily_impact p) * 365 \<and>
     carbon_saved_kg (annual_environmental_impact p) =
       daily_carbon_saved_kg (daily_impact p) * 365 \<and>
     carbon_saved_tons (annual_environmental_impact p) =
       carbon_saved_kg (annual_environmental_impact p) / 1000 \<and>
     energy_cost_savings (annual_cost_savings p) =
       energy_saved_kwh (annual_environmental_impact p) * ENERGY_COST_PER_KWH self \<and>
     carbon_credit_savings (annual_cost_savings p) =
       carbon_saved_tons (annual_environmental_impact p) * CARBON_CREDIT_COST_PER_TON self \<and>
     total_savings (annual_cost_savings p) =
       energy_cost_savings (annual_cost_savings p) +
       carbon_credit_savings (annual_cost_savings p) \<and>
     equivalent_cars_removed (annual_environmental_impact p) =
       carbon_saved_tons (annual_environmental_impact p) / 4.6 \<and>
     equivalent_trees_planted (annual_environmental_impact p) =
       carbon_saved_kg (annual_environmental_impact p) / 22"
  by (simp add: calculate_annual_projections_def Let_def)

subsection \<open>The comparative analyzer\<close>

text \<open>
  Claim C3 says that a baseline with a \<open>total_joules\<close>, a carbon mass or a duration of
  zero makes the comparison fail with a division-by-zero error that is caught and reported
  as a typed failure, never an uncontrolled exception. The source divides without a guard,
  and neither \<open>calculate_framework_comparison\<close> nor \<open>generate_carbon_report\<close> has an
  exception handler. At a baseline of zero duration the division raises
  \<open>ZeroDivisionError\<close> out of the comparison; a report over the login scenario followed
  by this one raises the same exception out of \<open>generate_carbon_report\<close>: nothing
  catches it, no report is returned and the failing scenario is reported nowhere.
\<close>

theorem zero_baseline_exception_uncaught:
  "calculate_framework_comparison init_calculator (still_clock 1)
     (sustainable_metrics zero_duration_scenario) (wasteful_metrics zero_duration_scenario) =
     Inl ZeroDivisionError \<and>
   generate_carbon_report init_calculator still_clock [login_scenario, zero_duration_scenario] =
     Inl ZeroDivisionError"
  by (simp add: generate_carbon_report_def calculate_framework_comparison_def
      calculate_base_consumption_def init_calculator_def login_scenario_def
      zero_duration_scenario_def zero_duration_metrics_def or_default_def truediv_def Let_def)

text \<open>
  Claim C3, amended. Whenever the baseline (wasteful) sample has a \<open>total_joules\<close> of
  zero, a carbon mass of zero or a duration of zero, \<open>calculate_framework_comparison\<close>
  returns no result: its unguarded division raises Python's \<open>ZeroDivisionError\<close>, and
  the exception leaves the call uncaught. No infinite or undefined number is produced
  instead.
\<close>

theorem comparison_zero_baseline:
  assumes base: "calculate_base_consumption self (duration_seconds w) (cpu_utilization w)
                   (memory_gb w) (or_default (storage_gb w)) (or_default (network_mb w)) = Inr rw"
    and zero: "total_joules (energy rw) = 0 \<or> total_g_co2e (carbon rw) = 0 \<or> duration_seconds w = 0"
  shows "calculate_framework_comparison self now s w = Inl ZeroDivisionError"
proof -
  obtain rs where s: "calculate_base_consumption self (duration_seconds s) (cpu_utilization s)
                   (memory_gb s) (or_default (storage_gb s)) (or_default (network_mb s)) = Inr rs"
    using base_consumption_returns by blast
  show ?thesis
    using zero
    unfolding calculate_framework_comparison_def s base bind_result_Inr
    by (auto simp: truediv_def Let_def)
qed

text \<open>A baseline that lasted zero seconds.\<close>

theorem comparison_zero_baseline_witness:
  "duration_seconds zero_duration_metrics = 0 \<and>
   calculate_framework_comparison init_calculator (still_clock 0)
     (sustainable_metrics login_scenario) zero_duration_metrics = Inl ZeroDivisionError"
  using comparison_zero_baseline [OF zero_duration_base, of "still_clock 0"
      "sustainable_metrics login_scenario"]
  by (simp add: zero_duration_metrics_def)

text \<open>
  Claim C10. The comparison also divides by the baseline's \<open>cpu_utilization\<close> and
  \<open>memory_gb\<close>: when the baseline's \<open>total_joules\<close>, carbon mass and duration are
  all nonzero but its CPU utilization or its memory is exactly zero, the comparison still
  fails with the division-by-zero error.
\<close>

theorem comparison_zero_cpu_or_memory:
  assumes base: "calculate_base_consumption self (duration_seconds w) (cpu_utilization w)
                   (memory_gb w) (or_default (storage_gb w)) (or_default (network_mb w)) = Inr rw"
    and nonzero: "total_joules (energy rw) \<noteq> 0" "total_g_co2e (carbon rw) \<noteq> 0"
                 "duration_seconds w \<noteq> 0"
    and zero: "cpu_utilization w = 0 \<or> memory_gb w = 0"
  shows "calculate_framework_comparison self now s w = Inl ZeroDivisionError"
proof -
  obtain rs where s: "calculate_base_consumption self (duration_seconds s) (cpu_utilization s)
                   (memory_gb s) (or_default (storage_gb s)) (or_default (network_mb s)) = Inr rs"
    using base_consumption_returns by blast
  show ?thesis
    using zero nonzero
    unfolding calculate_framework_comparison_def s base bind_result_Inr
    by (auto simp: truediv_def Let_def)
qed

text \<open>A baseline with an idle CPU: its energy, carbon and duration are positive.\<close>

theorem comparison_zero_cpu_or_memory_witness:
  "duration_seconds idle_cpu_metrics \<noteq> 0 \<and> cpu_utilization idle_cpu_metrics = 0 \<and>
   calculate_framework_comparison init_calculator (still_clock 0)
     (sustainable_metrics login_scenario) idle_cpu_metrics = Inl ZeroDivisionError"
  using comparison_zero_cpu_or_memory [OF idle_cpu_base, of "still_clock 0"
      "sustainable_metrics login_scenario"]
  by (simp add: idle_cpu_metrics_def login_scenario_def)

subsection \<open>Determinism\<close>

text \<open>
  Claim C6 says that two calls of an engine operation with identical inputs yield
  identical outputs, with no dependence on the wall clock. A comparison stores the clock
  reading in its \<open>timestamp\<close>: the same calculator and the same two samples, compared
  at two different seconds, give two different results.
\<close>

theorem comparison_depends_on_clock:
  "calculate_framework_comparison init_calculator (still_clock 0)
      (sustainable_metrics login_scenario) (wasteful_metrics login_scenario) \<noteq>
   calculate_framework_comparison init_calculator (later_clock 0)
      (sustainable_metrics login_scenario) (wasteful_metrics login_scenario)"
  by (simp add: calculate_framework_comparison_def calculate_base_consumption_def
      init_calculator_def login_scenario_def or_default_def truediv_def Let_def
      still_clock_def later_clock_def)

text \<open>
  Claim C6, amended. The output of a comparison and of a report depends only on the
  inputs, the coefficients and the clock readings, and on the readings only in the fields
  \<open>timestamp\<close> and \<open>generated_timestamp\<close>: two calls with identical inputs fail with
  the same error or return results that are equal once those fields are blanked.
  (A projection reads no clock at all: \<open>calculate_annual_projections\<close> has no clock
  argument.)
\<close>

theorem outputs_equal_up_to_timestamps:
  "map_sum id without_timestamp (calculate_framework_comparison self now s w) =
     map_sum id without_timestamp (calculate_framework_comparison self now' s w) \<and>
   map_sum id without_timestamps (generate_carbon_report self clock scs) =
     map_sum id without_timestamps (generate_carbon_report self clock' scs)"
  by (simp add: comparison_clock report_clock)

subsection \<open>The report aggregator\<close>

text \<open>
  Claim C5 says that an empty scenario collection makes the report fail with
  \<open>EmptyInput\<close> and with no other error. The source has no check for emptiness: the
  failure on the empty list is not \<open>EmptyInput\<close>.
\<close>

theorem empty_report_not_EmptyInput:
  "generate_carbon_report init_calculator still_clock [] \<noteq> Inl EmptyInput"
  by (simp add: generate_carbon_report_def bind_result_def truediv_def py_sum_def Let_def)

text \<open>
  Claim C5, amended. On an empty scenario collection \<open>generate_carbon_report\<close> fails
  with \<open>ZeroDivisionError\<close>, raised when the empty sum of the reduction percentages
  is divided by the number of comparisons, \<open>0\<close>; it returns no report.
\<close>

theorem empty_report_error:
  "generate_carbon_report self clock [] = Inl ZeroDivisionError"
  by (simp add: generate_carbon_report_def bind_result_def truediv_def py_sum_def Let_def)

text \<open>
  Claim C8. For a scenario list that is not empty and on which every comparison succeeds,
  \<open>generate_carbon_report\<close> returns a report whose detailed scenarios are the
  comparisons of the scenarios, in order and each under its scenario's name; its two
  average reduction percentages are the arithmetic means over them, its total energy and
  carbon savings are the sums over them, and its annual projection is the projection, at
  \<open>100\<close> tests a day, of the mean saving per scenario: each total divided by the number
  of scenarios.
\<close>

theorem report_aggregates:
  assumes nonempty: "scs \<noteq> []"
    and succeed: "\<forall>i<length scs. \<not> isl (calculate_framework_comparison self (clock i)
       (sustainable_metrics (scs ! i)) (wasteful_metrics (scs ! i)))"
  shows "\<exists>r. generate_carbon_report self clock scs = Inr r \<and>
     length (detailed_scenarios r) = length scs \<and>
     (\<forall>i<length scs.
        calculate_framework_comparison self (clock i)
          (sustainable_metrics (scs ! i)) (wasteful_metrics (scs ! i)) =
          Inr ((detailed_scenarios r ! i)\<lparr>scenario_name := None\<rparr>) \<and>
        scenario_name (detailed_scenarios r ! i) = Some (name (scs ! i))) \<and>
     average_carbon_reduction_percent (executive_summary r) =
       (\<Sum>c\<leftarrow>detailed_scenarios r. carbon_reduction_percent (comparison_summary c)) /
       real (length scs) \<and>
     average_energy_reduction_percent (executive_summary r) =
       (\<Sum>c\<leftarrow>detailed_scenarios r. energy_reduction_percent (comparison_summary c)) /
       real (length scs) \<and>
     total_energy_saved_joules (executive_summary r) =
       (\<Sum>c\<leftarrow>detailed_scenarios r. energy_saved_joules (comparison_summary c)) \<and>
     total_carbon_saved_g_co2e (executive_summary r) =
       (\<Sum>c\<leftarrow>detailed_scenarios r. carbon_saved_g_co2e (comparison_summary c)) \<and>
     calculate_annual_projections self 100
       \<lparr> energy_saved_joules = total_energy_saved_joules (executive_summary r) / real (length scs),
         carbon_saved_g_co2e = total_carbon_saved_g_co2e (executive_summary r) / real (length scs) \<rparr>
       = Inr (annual_projections r)"
proof -
  from compare_scenarios_succeeds [of scs self clock 0 "[]"] succeed
  obtain cs where cs: "compare_scenarios self clock 0 [] scs = Inr cs" "length cs = length scs"
    "\<forall>i<length scs.
        calculate_framework_comparison self (clock i)
          (sustainable_metrics (scs ! i)) (wasteful_metrics (scs ! i)) =
          Inr ((cs ! i)\<lparr>scenario_name := None\<rparr>) \<and>
        scenario_name (cs ! i) = Some (name (scs ! i))"
    by auto
  have len: "real (length scs) \<noteq> 0" "real (length cs) \<noteq> 0"
    using nonempty cs(2) by simp_all
  obtain p where p: "\<And>c :: savings. calculate_annual_projections self 100 c = Inr (p c)"
    by (simp add: calculate_annual_projections_def Let_def)
  show ?thesis
    unfolding generate_carbon_report_def cs(1) bind_result_Inr
    using cs(2,3) len
    by (simp add: truediv_def Let_def py_sum_sum_list p comp_def)
qed

text \<open>The three scenarios of \<open>main\<close>, with the default coefficients.\<close>

theorem report_aggregates_witness:
  "main_test_scenarios \<noteq> [] \<and>
   (\<exists>r. generate_carbon_report init_calculator still_clock main_test_scenarios = Inr r \<and>
      length (detailed_scenarios r) = 3 \<and>
      average_carbon_reduction_percent (executive_summary r) =
        (\<Sum>c\<leftarrow>detailed_scenarios r. carbon_reduction_percent (comparison_summary c)) / 3 \<and>
      total_energy_saved_joules (executive_summary r) =
        (\<Sum>c\<leftarrow>detailed_scenarios r. energy_saved_joules (comparison_summary c)) \<and>
      calculate_annual_projections init_calculator 100
        \<lparr> energy_saved_joules = total_energy_saved_joules (executive_summary r) / 3,
          carbon_saved_g_co2e = total_carbon_saved_g_co2e (executive_summary r) / 3 \<rparr>
        = Inr (annual_projections r))"
proof -
  have nonempty: "main_test_scenarios \<noteq> []"
    by (simp add: main_test_scenarios_def)
  have succeed: "\<forall>i<length main_test_scenarios.
      \<not> isl (calculate_framework_comparison init_calculator (still_clock i)
        (sustainable_metrics (main_test_scenarios ! i))
        (wasteful_metrics (main_test_scenarios ! i)))"
    by (simp add: main_test_scenarios_def main_scenarios_compare All_less_Suc)
  have three: "length main_test_scenarios = 3"
    by (simp add: main_test_scenarios_def)
  show ?thesis
    using report_aggregates [OF nonempty succeed] nonempty
    unfolding three by auto
qed

end
